theory Spec2Isabelle
  imports Main "HOL-Library.Sublist"
begin

section \<open>The configuration header of WiFiLight\<close>

text \<open>
  The repository's source is the header \<^verbatim>\<open>WiFiLight/config.h\<close>: eleven object-like
  macro definitions and nothing else. Every macro body is a single token: a decimal
  integer literal, a string literal, or (for \<^verbatim>\<open>DATA_PIN\<close>) the identifier \<^verbatim>\<open>D2\<close>,
  which the board's core declares and this repository does not; \<^verbatim>\<open>DATA_PIN\<close> is
  therefore left out. The header has no function, no object and no statement: each
  macro is a constant below, under its own name.

  A decimal literal without suffix has the C type \<^verbatim>\<open>int\<close>; all four literals of the
  header are far below any width of \<^verbatim>\<open>int\<close>, so they are given as \<^typ>\<open>int\<close>.
  A string literal is a \<^typ>\<open>string\<close>, without its terminating zero.
\<close>

subsection \<open>general\<close>

definition ID_PREFIX :: string where
  "ID_PREFIX = ''LIGHT-''"

subsection \<open>LED\<close>

definition NUM_LEDS :: int where
  "NUM_LEDS = 8"

subsection \<open>MQTT\<close>

definition MQTT_PORT :: int where
  "MQTT_PORT = 1883"

definition MQTT_SERVER :: string where
  "MQTT_SERVER = ''mymqttserver.com''"

definition MQTT_USER :: string where
  "MQTT_USER = ''user''"

definition MQTT_PASSWORD :: string where
  "MQTT_PASSWORD = ''password''"

definition MQTT_STATE_TOPIC :: string where
  "MQTT_STATE_TOPIC = ''light''"

definition MQTT_COMMAND_TOPIC :: string where
  "MQTT_COMMAND_TOPIC = ''light-set''"

subsection \<open>HTTP\<close>

definition HTTP_SERVER_PORT :: int where
  "HTTP_SERVER_PORT = 80"

subsection \<open>WebSockets\<close>

definition WEBSOCKET_PORT :: int where
  "WEBSOCKET_PORT = 81"

section \<open>Properties of the constants\<close>

text \<open>
  C1. The topic the state is reported on and the topic commands arrive on are two
  different strings.
\<close>

theorem state_topic_neq_command_topic:
  "MQTT_STATE_TOPIC \<noteq> MQTT_COMMAND_TOPIC"
  by (simp add: MQTT_STATE_TOPIC_def MQTT_COMMAND_TOPIC_def)

text \<open>
  C2. Each of the three ports lies between 1 and 65535, and no two of them are equal.
\<close>

theorem ports_in_range_and_distinct:
  "1 \<le> MQTT_PORT \<and> MQTT_PORT \<le> 65535 \<and>
   1 \<le> HTTP_SERVER_PORT \<and> HTTP_SERVER_PORT \<le> 65535 \<and>
   1 \<le> WEBSOCKET_PORT \<and> WEBSOCKET_PORT \<le> 65535 \<and>
   MQTT_PORT \<noteq> HTTP_SERVER_PORT \<and>
   MQTT_PORT \<noteq> WEBSOCKET_PORT \<and>
   HTTP_SERVER_PORT \<noteq> WEBSOCKET_PORT"
  by (simp add: MQTT_PORT_def HTTP_SERVER_PORT_def WEBSOCKET_PORT_def)

text \<open>
  C3. The number of LEDs is positive.
\<close>

theorem num_leds_positive:
  "0 < NUM_LEDS"
  by (simp add: NUM_LEDS_def)

text \<open>
  C4. The prefix of the device identifier is not the empty string.
\<close>

theorem id_prefix_nonempty:
  "ID_PREFIX \<noteq> []"
  by (simp add: ID_PREFIX_def)

text \<open>
  C5. The MQTT port fits an unsigned 16-bit integer and is one of the two usual MQTT
  ports: 1883 (plain) or 8883 (over TLS).
\<close>

theorem mqtt_port_typical:
  "0 \<le> MQTT_PORT \<and> MQTT_PORT < 2 ^ 16 \<and> (MQTT_PORT = 1883 \<or> MQTT_PORT = 8883)"
  by (simp add: MQTT_PORT_def)

text \<open>
  C6. The port of the HTTP server fits an unsigned 16-bit integer and is the default
  HTTP port, 80.
\<close>

theorem http_server_port_default:
  "0 \<le> HTTP_SERVER_PORT \<and> HTTP_SERVER_PORT < 2 ^ 16 \<and> HTTP_SERVER_PORT = 80"
  by (simp add: HTTP_SERVER_PORT_def)

text \<open>
  C8. The command topic is the state topic followed by \<^verbatim>\<open>-set\<close>; the state topic is
  therefore a proper prefix of the command topic.
\<close>

theorem command_topic_is_state_topic_set:
  "MQTT_COMMAND_TOPIC = MQTT_STATE_TOPIC @ ''-set'' \<and>
   strict_prefix MQTT_STATE_TOPIC MQTT_COMMAND_TOPIC"
  by (simp add: MQTT_STATE_TOPIC_def MQTT_COMMAND_TOPIC_def)

text \<open>
  C9. Neither topic holds a wildcard (\<^verbatim>\<open>+\<close>, \<^verbatim>\<open>#\<close>) or the level separator
  (\<^verbatim>\<open>/\<close>), and neither is empty: each is one topic level that a message can be
  published to.
\<close>

theorem topics_single_level_no_wildcard:
  "set MQTT_STATE_TOPIC \<inter> {CHR ''+'', CHR ''#'', CHR ''/''} = {} \<and>
   set MQTT_COMMAND_TOPIC \<inter> {CHR ''+'', CHR ''#'', CHR ''/''} = {} \<and>
   MQTT_STATE_TOPIC \<noteq> [] \<and> MQTT_COMMAND_TOPIC \<noteq> []"
  by (simp add: MQTT_STATE_TOPIC_def MQTT_COMMAND_TOPIC_def)

text \<open>
  C10. The WebSocket port is the HTTP port plus one (81 after 80): the two listeners
  of the device sit on consecutive, different ports.
\<close>

theorem websocket_port_succ_http_port:
  "WEBSOCKET_PORT = HTTP_SERVER_PORT + 1 \<and>
   HTTP_SERVER_PORT = 80 \<and> WEBSOCKET_PORT = 81 \<and>
   WEBSOCKET_PORT \<noteq> HTTP_SERVER_PORT"
  by (simp add: HTTP_SERVER_PORT_def WEBSOCKET_PORT_def)

end
